theory Spec2Isabelle
  imports Main
begin

section \<open>Data model of \<open>gempy/core/data/geo_model.py\<close>\<close>

text \<open>
  The module holds one class, \<open>GeoModel\<close>, whose methods read and write objects of
  classes defined elsewhere (\<open>StructuralFrame\<close>, \<open>Grid\<close>, \<open>Transform\<close>, and the engine's
  \<open>Solutions\<close>, \<open>InterpolationInput\<close>, \<open>InterpolationOptions\<close>). Each of those classes
  is a record of the attributes that \<open>geo_model.py\<close> touches. Types whose values the module
  only passes on are type variables: \<open>'a\<close> for a numpy array, \<open>'p\<close> for a point of an input
  table, \<open>'t\<close> for a \<open>Transform\<close>, \<open>'i\<close> for an \<open>InterpolationInput\<close>.
  The objects of a list are taken to be distinct: a list of groups or of elements is a
  list of values, and assigning to the object at one index leaves the others as they are.
\<close>

datatype error = IndexError | DegenerateInputError | IndexMismatchError

text \<open>
  What a call does besides changing the model: \<open>warnings.warn(..., category=UserWarning)\<close>,
  and the call of the engine's \<open>InterpolationInput.from_structural_frame\<close>, recorded with
  the \<open>transform\<close> and \<open>octrees\<close> arguments it was given.
\<close>

datatype 't event = UserWarning string | FromStructuralFrame 't bool

record 'a LegacySolution =
  scalar_field_matrix :: 'a
  block_matrix :: 'a

record 'a RawArraysSolution =
  scalar_field_matrix :: "'a list"
  block_matrix :: "'a list"

record 'a DualContouringMesh =
  vertices :: 'a
  edges :: 'a

record 'a Solutions =
  raw_arrays :: "'a RawArraysSolution"
  dc_meshes :: "'a DualContouringMesh option list option"

record 'a StructuralElement =
  name :: string
  vertices :: "'a option"
  edges :: "'a option"

record 'a StructuralGroup =
  name :: string
  solution :: "'a LegacySolution option"

record ('a, 'p) StructuralFrame =
  structural_groups :: "'a StructuralGroup list"
  structural_elements :: "'a StructuralElement list"
  surface_points :: "'p list"
  orientations :: "('p \<times> 'p) list"
  is_dirty :: bool

record 'a RegularGrid =
  extent :: 'a
  resolution :: "int list option"

record 'a Grid =
  regular_grid :: "'a RegularGrid"

record InterpolationOptions =
  number_octree_levels :: int

record GeoModelMeta =
  name :: string
  creation_date :: "string option"
  last_modification_date :: "string option"
  owner :: "string option"

typedecl engine_grid
typedecl InputDataDescriptor
typedecl legacy_project

text \<open>
  The fields \<open>_interpolationInput\<close>, \<open>_input_data_descriptor\<close> and \<open>_solutions\<close> of the
  class are \<open>priv_...\<close> here (an Isabelle name cannot start with an underscore). They and
  \<open>interpolation_grid\<close>, \<open>legacy_model\<close> are class attributes with the default \<open>None\<close>.
\<close>

record ('a, 'p, 't, 'i) GeoModel =
  meta :: GeoModelMeta
  structural_frame :: "('a, 'p) StructuralFrame"
  grid :: "'a Grid"
  transform :: 't
  interpolation_options :: InterpolationOptions
  interpolation_grid :: "engine_grid option"
  priv_interpolationInput :: "'i option"
  priv_input_data_descriptor :: "InputDataDescriptor option"
  priv_solutions :: "'a Solutions option"
  legacy_model :: "legacy_project option"

section \<open>The derived input: \<open>GeoModel.interpolation_input\<close>\<close>

text \<open>
  Modelled from the spec: \<open>RegularGrid.set_regular_grid\<close> is defined in the grid module,
  which is not among the sources. The spec says of the call that it overwrites the regular
  grid's resolution; the extent it is given is stored with it.
\<close>

definition set_regular_grid :: "'a RegularGrid \<Rightarrow> 'a \<Rightarrow> int list \<Rightarrow> 'a RegularGrid" where
  "set_regular_grid rg ext res = rg\<lparr>extent := ext, resolution := Some res\<rparr>"

text \<open>The message of the warning in the getter.\<close>

definition overwrite_message :: string where
  "overwrite_message =
     ''You are using octrees and passing a regular grid. The resolution of the regular grid will be overwritten''"

text \<open>
  The property getter. \<open>from_structural_frame\<close> is the engine's constructor, a parameter.
  The result is the value returned, the model after the call, and the events of the call
  in order. \<open>2 ** n_octree_lvl\<close> is computed only when \<open>n_octree_lvl > 1\<close>, on Python's
  unbounded integers.
\<close>

definition interpolation_input ::
  "(('a, 'p) StructuralFrame \<Rightarrow> 'a Grid \<Rightarrow> 't \<Rightarrow> bool \<Rightarrow> 'i) \<Rightarrow> ('a, 'p, 't, 'i) GeoModel
     \<Rightarrow> 'i option \<times> ('a, 'p, 't, 'i) GeoModel \<times> 't event list" where
  "interpolation_input from_structural_frame self =
     (if is_dirty (structural_frame self) then
        let n_octree_lvl = number_octree_levels (interpolation_options self);
            compute_octrees = (1 < n_octree_lvl);
            warned = (if compute_octrees \<and> resolution (regular_grid (grid self)) \<noteq> None
                      then [UserWarning overwrite_message] else []);
            self1 = (if compute_octrees
                     then self\<lparr>grid := (grid self)\<lparr>regular_grid :=
                            set_regular_grid (regular_grid (grid self))
                              (extent (regular_grid (grid self)))
                              (replicate 3 (2 ^ nat n_octree_lvl))\<rparr>\<rparr>
                     else self);
            self2 = self1\<lparr>priv_interpolationInput :=
                      Some (from_structural_frame (structural_frame self1) (grid self1)
                              (transform self1) compute_octrees)\<rparr>
        in (priv_interpolationInput self2, self2,
            warned @ [FromStructuralFrame (transform self1) compute_octrees])
      else (priv_interpolationInput self, self, []))"

section \<open>Distributing a solution: the setter of \<open>GeoModel.solutions\<close>\<close>

text \<open>
  The setter can raise after it has already changed the model (Python keeps what was
  assigned before the exception), so each loop returns the objects as they are when it
  stops, together with the exception if there is one.

  The first loop, over \<open>enumerate(structural_groups)\<close>. Indexing a raw array at a row it
  does not have raises \<open>IndexError\<close>; both arguments of \<open>LegacySolution(...)\<close> are
  evaluated before \<open>group.solution\<close> is assigned.
\<close>

fun solutions_group_loop ::
  "'a RawArraysSolution \<Rightarrow> nat \<Rightarrow> 'a StructuralGroup list \<Rightarrow> 'a StructuralGroup list \<times> error option" where
  "solutions_group_loop ra e [] = ([], None)"
| "solutions_group_loop ra e (grp # rest) =
     (if e < length (RawArraysSolution.scalar_field_matrix ra)
         \<and> e < length (RawArraysSolution.block_matrix ra)
      then (case solutions_group_loop ra (Suc e) rest of
              (rest', err) \<Rightarrow>
                (grp\<lparr>solution := Some
                    \<lparr>LegacySolution.scalar_field_matrix = RawArraysSolution.scalar_field_matrix ra ! e,
                     LegacySolution.block_matrix = RawArraysSolution.block_matrix ra ! e\<rparr>\<rparr> # rest', err))
      else (grp # rest, Some IndexError))"

text \<open>
  \<open>self._solutions.dc_meshes[e] if self._solutions.dc_meshes is not None else None\<close>:
  the mesh list may be \<open>None\<close> as a whole, an entry may be \<open>None\<close>, and an index past the
  end of the list raises \<open>IndexError\<close>.
\<close>

definition dc_mesh_at :: "'a DualContouringMesh option list option \<Rightarrow> nat \<Rightarrow> error + 'a DualContouringMesh option" where
  "dc_mesh_at meshes e =
     (case meshes of
        None \<Rightarrow> Inr None
      | Some ms \<Rightarrow> if e < length ms then Inr (ms ! e) else Inl IndexError)"

text \<open>
  The second loop, over \<open>enumerate(structural_elements[:-1])\<close>; \<open>apply_inverse\<close> is
  \<open>Transform.apply_inverse\<close>, a parameter.
\<close>

fun solutions_element_loop ::
  "('t \<Rightarrow> 'a \<Rightarrow> 'a) \<Rightarrow> 't \<Rightarrow> 'a DualContouringMesh option list option \<Rightarrow> nat
     \<Rightarrow> 'a StructuralElement list \<Rightarrow> 'a StructuralElement list \<times> error option" where
  "solutions_element_loop apply_inverse T meshes e [] = ([], None)"
| "solutions_element_loop apply_inverse T meshes e (element # rest) =
     (case dc_mesh_at meshes e of
        Inl err \<Rightarrow> (element # rest, Some err)
      | Inr dc_mesh \<Rightarrow>
          (case solutions_element_loop apply_inverse T meshes (Suc e) rest of
             (rest', err) \<Rightarrow>
               (element\<lparr>StructuralElement.vertices :=
                           map_option (\<lambda>m. apply_inverse T (DualContouringMesh.vertices m)) dc_mesh,
                        StructuralElement.edges := map_option DualContouringMesh.edges dc_mesh\<rparr>
                  # rest', err)))"

text \<open>
  The setter: the model after the assignment, and the exception it raised, if any.
  \<open>structural_elements[:-1]\<close> is \<open>butlast\<close>; the element the slice leaves out stays in the
  frame as it is.
\<close>

definition solutions_setter ::
  "('t \<Rightarrow> 'a \<Rightarrow> 'a) \<Rightarrow> ('a, 'p, 't, 'i) GeoModel \<Rightarrow> 'a Solutions
     \<Rightarrow> ('a, 'p, 't, 'i) GeoModel \<times> error option" where
  "solutions_setter apply_inverse self val =
     (let self1 = self\<lparr>priv_solutions := Some val\<rparr>;
          (groups', err) = solutions_group_loop (raw_arrays val) 0
                             (structural_groups (structural_frame self1));
          self2 = self1\<lparr>structural_frame :=
                    (structural_frame self1)\<lparr>structural_groups := groups'\<rparr>\<rparr>
      in case err of
           Some ex \<Rightarrow> (self2, Some ex)
         | None \<Rightarrow>
             (let els = structural_elements (structural_frame self2);
                  (els', err') = solutions_element_loop apply_inverse (transform self2)
                                   (dc_meshes val) 0 (butlast els)
              in (self2\<lparr>structural_frame :=
                     (structural_frame self2)\<lparr>structural_elements :=
                        els' @ drop (length els - 1) els\<rparr>\<rparr>, err')))"

section \<open>Construction: \<open>GeoModel.__init__\<close>\<close>

text \<open>The read-only properties \<open>surface_points\<close> and \<open>orientations\<close> of the model.\<close>

definition GeoModel_surface_points :: "('a, 'p, 't, 'i, 'z) GeoModel_scheme \<Rightarrow> 'p list" where
  "GeoModel_surface_points self = surface_points (structural_frame self)"

definition GeoModel_orientations :: "('a, 'p, 't, 'i, 'z) GeoModel_scheme \<Rightarrow> ('p \<times> 'p) list" where
  "GeoModel_orientations self = orientations (structural_frame self)"

text \<open>
  \<open>__init__\<close> stores its arguments and then fits the transform from the model's own
  points; \<open>from_input_points\<close> is \<open>Transform.from_input_points\<close>, a parameter that may
  raise. Nothing catches its exception.
\<close>

definition GeoModel_init ::
  "('p list \<Rightarrow> ('p \<times> 'p) list \<Rightarrow> error + 't) \<Rightarrow> string \<Rightarrow> ('a, 'p) StructuralFrame \<Rightarrow> 'a Grid
     \<Rightarrow> InterpolationOptions \<Rightarrow> error + ('a, 'p, 't, 'i) GeoModel" where
  "GeoModel_init from_input_points nm sf g opts =
     (case from_input_points (surface_points sf) (orientations sf) of
        Inl ex \<Rightarrow> Inl ex
      | Inr T \<Rightarrow>
          Inr \<lparr>meta = \<lparr>GeoModelMeta.name = nm, creation_date = None,
                       last_modification_date = None, owner = None\<rparr>,
               structural_frame = sf, grid = g, transform = T,
               interpolation_options = opts, interpolation_grid = None,
               priv_interpolationInput = None, priv_input_data_descriptor = None,
               priv_solutions = None, legacy_model = None\<rparr>)"

text \<open>
  Modelled from the spec: the test of \<open>Transform.from_input_points\<close> for degenerate
  input, whose module is not among the sources. The spec: the points are degenerate when
  all of them are coincident (zero extent), and also when there is no point at all.
\<close>

definition coincident :: "'p list \<Rightarrow> bool" where
  "coincident pts = (case pts of [] \<Rightarrow> True | p # ps \<Rightarrow> list_all (\<lambda>q. q = p) ps)"

text \<open>
  Modelled from the spec: \<open>Transform.from_input_points\<close> is defined in the transforms
  module, which is not among the sources. The spec: it works on all input coordinates, of
  surface points and of orientations, and fails with \<open>DegenerateInputError\<close> if all points
  are coincident. The fit itself (centre, extent, scale) is floating-point arithmetic and
  stays a parameter \<open>fit\<close>. An orientation is a pair of its position and its gradient.
\<close>

definition from_input_points :: "('p list \<Rightarrow> 't) \<Rightarrow> 'p list \<Rightarrow> ('p \<times> 'p) list \<Rightarrow> error + 't" where
  "from_input_points fit sp ori =
     (let pts = sp @ map fst ori
      in if coincident pts then Inl DegenerateInputError else Inr (fit pts))"

section \<open>A modelling session\<close>

text \<open>
  What a caller does with a model once it is built: read the derived input, assign a
  solution (an exception of the setter reaches the caller and the model stays as the
  setter left it), or edit the structural frame it shares with the model. A session
  returns the final model and the events of all its reads.
\<close>

datatype ('a, 'p) op =
    Read
  | Assign "'a Solutions"
  | Edit "('a, 'p) StructuralFrame \<Rightarrow> ('a, 'p) StructuralFrame"

fun run_ops ::
  "(('a, 'p) StructuralFrame \<Rightarrow> 'a Grid \<Rightarrow> 't \<Rightarrow> bool \<Rightarrow> 'i) \<Rightarrow> ('t \<Rightarrow> 'a \<Rightarrow> 'a)
     \<Rightarrow> ('a, 'p, 't, 'i) GeoModel \<Rightarrow> ('a, 'p) op list
     \<Rightarrow> ('a, 'p, 't, 'i) GeoModel \<times> 't event list" where
  "run_ops fsf ai self [] = (self, [])"
| "run_ops fsf ai self (Read # ops) =
     (case interpolation_input fsf self of
        (r, self', evs) \<Rightarrow>
          (case run_ops fsf ai self' ops of (final, evs') \<Rightarrow> (final, evs @ evs')))"
| "run_ops fsf ai self (Assign val # ops) =
     run_ops fsf ai (fst (solutions_setter ai self val)) ops"
| "run_ops fsf ai self (Edit f # ops) =
     run_ops fsf ai (self\<lparr>structural_frame := f (structural_frame self)\<rparr>) ops"

section \<open>A small model\<close>

text \<open>
  Two groups over three surfaces and the basement, a regular grid of resolution
  \<open>[10, 10, 10]\<close>, arrays as lists of integers, points as integer triples, a transform that
  is a single offset (the number of input points), an interpolation input that keeps the
  surface points, the resolution, the transform and the octree flag it was built from.
\<close>

definition example_frame :: "(int list, int \<times> int \<times> int) StructuralFrame" where
  "example_frame =
     \<lparr>structural_groups =
        [\<lparr>StructuralGroup.name = ''Fault_Series'', solution = None\<rparr>,
         \<lparr>StructuralGroup.name = ''Strat_Series'', solution = None\<rparr>],
      structural_elements =
        [\<lparr>StructuralElement.name = ''Main_Fault'', vertices = None, edges = None\<rparr>,
         \<lparr>StructuralElement.name = ''Sandstone'', vertices = None, edges = None\<rparr>,
         \<lparr>StructuralElement.name = ''Shale'', vertices = Some [9], edges = Some [9]\<rparr>,
         \<lparr>StructuralElement.name = ''basement'', vertices = Some [7], edges = Some [7]\<rparr>],
      surface_points = [(0, 0, 0), (10, 20, 30)],
      orientations = [((5, 5, 5), (0, 0, 1))],
      is_dirty = True\<rparr>"

definition example_grid :: "int list Grid" where
  "example_grid =
     \<lparr>regular_grid = \<lparr>extent = [0, 2000, 0, 2000, 0, 2000], resolution = Some [10, 10, 10]\<rparr>\<rparr>"

definition example_fit :: "(int \<times> int \<times> int) list \<Rightarrow> int" where
  "example_fit pts = int (length pts)"

definition example_apply_inverse :: "int \<Rightarrow> int list \<Rightarrow> int list" where
  "example_apply_inverse T vs = map (\<lambda>v. v + T) vs"

definition example_fsf ::
  "(int list, int \<times> int \<times> int) StructuralFrame \<Rightarrow> int list Grid \<Rightarrow> int \<Rightarrow> bool
     \<Rightarrow> (int \<times> int \<times> int) list \<times> int list option \<times> int \<times> bool" where
  "example_fsf sf g T oc = (surface_points sf, resolution (regular_grid g), T, oc)"

definition example_model ::
  "int \<Rightarrow> (int list, int \<times> int \<times> int, int, (int \<times> int \<times> int) list \<times> int list option \<times> int \<times> bool) GeoModel" where
  "example_model levels =
     \<lparr>meta = \<lparr>GeoModelMeta.name = ''Model_Tuto1-1'', creation_date = None,
              last_modification_date = None, owner = None\<rparr>,
      structural_frame = example_frame, grid = example_grid, transform = 3,
      interpolation_options = \<lparr>number_octree_levels = levels\<rparr>, interpolation_grid = None,
      priv_interpolationInput = None, priv_input_data_descriptor = None,
      priv_solutions = None, legacy_model = None\<rparr>"

definition example_solutions :: "int list Solutions" where
  "example_solutions =
     \<lparr>raw_arrays = \<lparr>RawArraysSolution.scalar_field_matrix = [[1, 2], [3, 4]],
                    RawArraysSolution.block_matrix = [[5, 6], [7, 8]]\<rparr>,
      dc_meshes = Some [Some \<lparr>DualContouringMesh.vertices = [1, 2, 3], DualContouringMesh.edges = [0, 1, 2]\<rparr>,
                        Some \<lparr>DualContouringMesh.vertices = [4, 5, 6], DualContouringMesh.edges = [2, 1, 0]\<rparr>,
                        None]\<rparr>"

text \<open>Solutions with one slice too few and with one slice too many for the two groups.\<close>

definition example_short_solutions :: "int list Solutions" where
  "example_short_solutions =
     example_solutions\<lparr>raw_arrays :=
       \<lparr>RawArraysSolution.scalar_field_matrix = [[1, 2]],
        RawArraysSolution.block_matrix = [[5, 6]]\<rparr>\<rparr>"

definition example_surplus_solutions :: "int list Solutions" where
  "example_surplus_solutions =
     example_solutions\<lparr>raw_arrays :=
       \<lparr>RawArraysSolution.scalar_field_matrix = [[1, 2], [3, 4], [0, 0]],
        RawArraysSolution.block_matrix = [[5, 6], [7, 8], [0, 0]]\<rparr>\<rparr>"

text \<open>Solutions whose mesh list is there and has no entry at all.\<close>

definition example_meshless_solutions :: "int list Solutions" where
  "example_meshless_solutions = example_solutions\<lparr>dc_meshes := Some []\<rparr>"

text \<open>A frame whose every input position is the same point.\<close>

definition example_degenerate_frame :: "(int list, int \<times> int \<times> int) StructuralFrame" where
  "example_degenerate_frame =
     example_frame\<lparr>surface_points := [(1, 2, 3), (1, 2, 3)],
                   orientations := [((1, 2, 3), (0, 0, 1))]\<rparr>"

section \<open>Properties of the derived-input read\<close>

lemmas example_defs = example_model_def example_frame_def example_grid_def example_fsf_def
  example_solutions_def example_apply_inverse_def example_fit_def

lemma interpolation_input_clean:
  "\<not> is_dirty (structural_frame self) \<Longrightarrow>
     interpolation_input fsf self = (priv_interpolationInput self, self, [])"
  by (simp add: interpolation_input_def)

lemma interpolation_input_structural_frame:
  "structural_frame (fst (snd (interpolation_input fsf self))) = structural_frame self"
  by (simp add: interpolation_input_def Let_def)

lemma interpolation_input_transform:
  "transform (fst (snd (interpolation_input fsf self))) = transform self"
  by (simp add: interpolation_input_def Let_def)

lemma interpolation_input_event_transform:
  "FromStructuralFrame T oc \<in> set (snd (snd (interpolation_input fsf self))) \<Longrightarrow>
     T = transform self"
  by (auto simp: interpolation_input_def Let_def split: if_splits)

text \<open>
  C10. With \<open>number_octree_levels\<close> at most 1, a read of \<open>interpolation_input\<close>, dirty or
  not, leaves the grid (resolution and extent of the regular grid) as it was and warns of
  nothing; the model after the read differs from the model before at most in the cached
  \<open>InterpolationInput\<close> field.
\<close>

theorem interpolation_input_no_octrees_frame:
  assumes "number_octree_levels (interpolation_options self) \<le> 1"
    and "interpolation_input fsf self = (r, self', evs)"
  shows "grid self' = grid self
    \<and> resolution (regular_grid (grid self')) = resolution (regular_grid (grid self))
    \<and> extent (regular_grid (grid self')) = extent (regular_grid (grid self))
    \<and> (\<forall>w. UserWarning w \<notin> set evs)
    \<and> self' = self\<lparr>priv_interpolationInput := r\<rparr>"
  using assms by (auto simp: interpolation_input_def Let_def split: if_splits)

theorem interpolation_input_no_octrees_frame_witness:
  "number_octree_levels (interpolation_options (example_model 1)) \<le> 1
   \<and> (case interpolation_input example_fsf (example_model 1) of (r, self', evs) \<Rightarrow>
        r = Some ([(0, 0, 0), (10, 20, 30)], Some [10, 10, 10], 3, False)
        \<and> grid self' = example_grid \<and> (\<forall>w. UserWarning w \<notin> set evs)
        \<and> self' = (example_model 1)\<lparr>priv_interpolationInput := r\<rparr>)"
proof -
  obtain r self' evs
    where run: "interpolation_input example_fsf (example_model 1) = (r, self', evs)"
    by (cases "interpolation_input example_fsf (example_model 1)")
  have lv: "number_octree_levels (interpolation_options (example_model 1)) \<le> 1"
    by (simp add: example_model_def)
  from interpolation_input_no_octrees_frame [OF lv run] run lv
  show ?thesis
    by (simp add: interpolation_input_def example_defs Let_def)
qed

text \<open>
  C5. A dirty read of a model with \<open>number_octree_levels > 1\<close> whose regular grid has a
  resolution warns that the resolution will be overwritten and sets the resolution to
  \<open>2 ^ number_octree_levels\<close> along each of the three axes; the read returns the input it
  built (the warning does not stop it). With 3 levels and the resolution \<open>[10, 10, 10]\<close>
  the resolution after the read is \<open>[8, 8, 8]\<close>.
\<close>

theorem interpolation_input_octree_override:
  assumes "is_dirty (structural_frame self)"
    and "1 < number_octree_levels (interpolation_options self)"
    and "resolution (regular_grid (grid self)) \<noteq> None"
  shows "case interpolation_input fsf self of (r, self', evs) \<Rightarrow>
           UserWarning overwrite_message \<in> set evs
         \<and> resolution (regular_grid (grid self')) =
             Some (let side = 2 ^ nat (number_octree_levels (interpolation_options self))
                   in [side, side, side])
         \<and> extent (regular_grid (grid self')) = extent (regular_grid (grid self))
         \<and> r = priv_interpolationInput self' \<and> r \<noteq> None"
  using assms
  by (simp add: interpolation_input_def Let_def set_regular_grid_def numeral_3_eq_3)

theorem interpolation_input_octree_override_witness:
  "is_dirty (structural_frame (example_model 3))
   \<and> 1 < number_octree_levels (interpolation_options (example_model 3))
   \<and> resolution (regular_grid (grid (example_model 3))) = Some [10, 10, 10]
   \<and> (case interpolation_input example_fsf (example_model 3) of (r, self', evs) \<Rightarrow>
         UserWarning overwrite_message \<in> set evs
       \<and> resolution (regular_grid (grid self')) = Some [8, 8, 8])"
proof -
  have d: "is_dirty (structural_frame (example_model 3))"
    by (simp add: example_defs)
  have l: "1 < number_octree_levels (interpolation_options (example_model 3))"
    by (simp add: example_defs)
  have r: "resolution (regular_grid (grid (example_model 3))) = Some [10, 10, 10]"
    by (simp add: example_defs)
  have r': "resolution (regular_grid (grid (example_model 3))) \<noteq> None"
    using r by simp
  have n: "number_octree_levels (interpolation_options (example_model 3)) = 3"
    by (simp add: example_defs)
  from interpolation_input_octree_override [OF d l r', of example_fsf] d l r show ?thesis
    by (auto simp: n Let_def split: prod.splits)
qed

text \<open>
  C1. The claim: a read of a clean model returns the cached input and builds nothing; a
  read of a dirty model builds the input and clears \<open>is_dirty\<close>, so that however often
  the input is read there is one build for each dirty period. The getter has the first
  half (\<open>interpolation_input_clean\<close>) and builds on a dirty read, but it never assigns
  \<open>is_dirty\<close> (\<open>interpolation_input_structural_frame\<close>): on the example model, dirty and
  read twice with nothing in between, the flag is still set after each read and both
  reads call \<open>from_structural_frame\<close>.
\<close>

theorem interpolation_input_rebuilds_while_dirty:
  "case interpolation_input example_fsf (example_model 1) of
     (r1, self1, evs1) \<Rightarrow>
       (case interpolation_input example_fsf self1 of
          (r2, self2, evs2) \<Rightarrow>
            is_dirty (structural_frame self1) \<and> is_dirty (structural_frame self2)
          \<and> evs1 = [FromStructuralFrame 3 False] \<and> evs2 = [FromStructuralFrame 3 False])"
  by (simp add: interpolation_input_def example_defs Let_def)

section \<open>Properties of the solution distribution\<close>

lemma drop_to_last: "xs \<noteq> [] \<Longrightarrow> drop (length xs - 1) xs = [last xs]"
  by (cases xs rule: rev_cases) simp_all

lemma group_loop_length:
  "length (fst (solutions_group_loop ra e gs)) = length gs"
  by (induction gs arbitrary: e) (simp_all add: split_beta)

lemma group_loop_nth:
  "i < length gs \<Longrightarrow>
   fst (solutions_group_loop ra e gs) ! i =
     (if e + i < length (RawArraysSolution.scalar_field_matrix ra)
         \<and> e + i < length (RawArraysSolution.block_matrix ra)
      then (gs ! i)\<lparr>solution := Some
              \<lparr>LegacySolution.scalar_field_matrix = RawArraysSolution.scalar_field_matrix ra ! (e + i),
               LegacySolution.block_matrix = RawArraysSolution.block_matrix ra ! (e + i)\<rparr>\<rparr>
      else gs ! i)"
proof (induction gs arbitrary: e i)
  case Nil
  then show ?case by simp
next
  case (Cons g gs)
  show ?case
  proof (cases i)
    case 0
    then show ?thesis by (simp add: split_beta)
  next
    case (Suc j)
    with Cons.prems have j: "j < length gs" by simp
    show ?thesis
      using Cons.IH [OF j, of "Suc e"] Suc
      by (simp add: split_beta)
  qed
qed

lemma group_loop_error:
  "snd (solutions_group_loop ra e gs) =
     (if gs = [] \<or> (e + length gs \<le> length (RawArraysSolution.scalar_field_matrix ra)
                     \<and> e + length gs \<le> length (RawArraysSolution.block_matrix ra))
      then None else Some IndexError)"
  by (induction gs arbitrary: e) (auto simp: split_beta)

lemma dc_mesh_at_mono:
  "dc_mesh_at meshes e = Inl ex \<Longrightarrow> dc_mesh_at meshes (e + i) = Inl IndexError"
  by (auto simp: dc_mesh_at_def split: option.splits if_splits)

lemma element_loop_length:
  "length (fst (solutions_element_loop ai T meshes e els)) = length els"
  by (induction els arbitrary: e) (auto simp: split_beta split: sum.splits)

lemma element_loop_nth:
  "i < length els \<Longrightarrow>
   fst (solutions_element_loop ai T meshes e els) ! i =
     (case dc_mesh_at meshes (e + i) of
        Inl ex \<Rightarrow> els ! i
      | Inr dc_mesh \<Rightarrow>
          (els ! i)\<lparr>StructuralElement.vertices :=
                      map_option (\<lambda>m. ai T (DualContouringMesh.vertices m)) dc_mesh,
                    StructuralElement.edges := map_option DualContouringMesh.edges dc_mesh\<rparr>)"
proof (induction els arbitrary: e i)
  case Nil
  then show ?case by simp
next
  case (Cons el els)
  show ?case
  proof (cases "dc_mesh_at meshes e")
    case (Inl ex)
    from dc_mesh_at_mono [OF Inl, of i] Inl show ?thesis by simp
  next
    case (Inr dc_mesh)
    show ?thesis
    proof (cases i)
      case 0
      with Inr show ?thesis by (simp add: split_beta)
    next
      case (Suc j)
      with Cons.prems have j: "j < length els" by simp
      show ?thesis
        using Cons.IH [OF j, of "Suc e"] Suc Inr
        by (simp add: split_beta split: sum.splits)
    qed
  qed
qed

lemma element_loop_error:
  "snd (solutions_element_loop ai T meshes e els) =
     (case meshes of
        None \<Rightarrow> None
      | Some ms \<Rightarrow> if els = [] \<or> e + length els \<le> length ms then None else Some IndexError)"
  by (induction els arbitrary: e)
     (auto simp: dc_mesh_at_def split_beta split: sum.splits option.splits if_splits)


lemma solutions_setter_transform:
  "transform (fst (solutions_setter ai self val)) = transform self"
  by (simp add: solutions_setter_def Let_def split_beta split: option.splits)

lemma solutions_setter_structural_groups:
  "structural_groups (structural_frame (fst (solutions_setter ai self val))) =
     fst (solutions_group_loop (raw_arrays val) 0 (structural_groups (structural_frame self)))"
  by (simp add: solutions_setter_def Let_def split_beta split: option.splits)

lemma solutions_setter_group_error:
  assumes "snd (solutions_group_loop (raw_arrays val) 0
             (structural_groups (structural_frame self))) = Some ex"
  shows "snd (solutions_setter ai self val) = Some ex"
    and "structural_elements (structural_frame (fst (solutions_setter ai self val))) =
           structural_elements (structural_frame self)"
  using assms by (simp_all add: solutions_setter_def Let_def split_beta)

lemma solutions_setter_structural_elements:
  assumes "snd (solutions_group_loop (raw_arrays val) 0
             (structural_groups (structural_frame self))) = None"
  shows "structural_elements (structural_frame (fst (solutions_setter ai self val))) =
           fst (solutions_element_loop ai (transform self) (dc_meshes val) 0
                  (butlast (structural_elements (structural_frame self))))
           @ drop (length (structural_elements (structural_frame self)) - 1)
               (structural_elements (structural_frame self))"
    and "snd (solutions_setter ai self val) =
           snd (solutions_element_loop ai (transform self) (dc_meshes val) 0
                  (butlast (structural_elements (structural_frame self))))"
  using assms by (simp_all add: solutions_setter_def Let_def split_beta)

lemma group_loop_no_error:
  assumes "length gs \<le> length (RawArraysSolution.scalar_field_matrix ra)"
    and "length gs \<le> length (RawArraysSolution.block_matrix ra)"
  shows "snd (solutions_group_loop ra 0 gs) = None"
  using assms by (simp add: group_loop_error)

lemma element_loop_error_from_0:
  "snd (solutions_element_loop ai T meshes 0 els) =
     (case meshes of
        None \<Rightarrow> None
      | Some ms \<Rightarrow> if length els \<le> length ms then None else Some IndexError)"
  by (auto simp: element_loop_error split: option.splits)

lemma solutions_setter_element_nth:
  assumes "snd (solutions_group_loop (raw_arrays val) 0
             (structural_groups (structural_frame self))) = None"
    and "e < length (structural_elements (structural_frame self)) - 1"
  shows "structural_elements (structural_frame (fst (solutions_setter ai self val))) ! e =
     (case dc_mesh_at (dc_meshes val) e of
        Inl ex \<Rightarrow> structural_elements (structural_frame self) ! e
      | Inr dc_mesh \<Rightarrow>
          (structural_elements (structural_frame self) ! e)
            \<lparr>StructuralElement.vertices :=
                map_option (\<lambda>m. ai (transform self) (DualContouringMesh.vertices m)) dc_mesh,
             StructuralElement.edges := map_option DualContouringMesh.edges dc_mesh\<rparr>)"
proof -
  let ?els = "structural_elements (structural_frame self)"
  let ?loop = "solutions_element_loop ai (transform self) (dc_meshes val) 0 (butlast ?els)"
  from assms(2) have "structural_elements (structural_frame (fst (solutions_setter ai self val))) ! e
      = fst ?loop ! e"
    by (simp add: solutions_setter_structural_elements [OF assms(1)] nth_append element_loop_length)
  also from assms(2) have "\<dots> = (case dc_mesh_at (dc_meshes val) e of
        Inl ex \<Rightarrow> butlast ?els ! e
      | Inr dc_mesh \<Rightarrow>
          (butlast ?els ! e)
            \<lparr>StructuralElement.vertices :=
                map_option (\<lambda>m. ai (transform self) (DualContouringMesh.vertices m)) dc_mesh,
             StructuralElement.edges := map_option DualContouringMesh.edges dc_mesh\<rparr>)"
    by (simp add: element_loop_nth)
  also from assms(2) have "butlast ?els ! e = ?els ! e"
    by (simp add: nth_butlast)
  finally show ?thesis .
qed

text \<open>
  C2. When every group index has a row in both raw arrays, the assignment leaves in the
  group at index \<open>e\<close>, for every \<open>e\<close>, a \<open>LegacySolution\<close> made of row \<open>e\<close> of
  \<open>scalar_field_matrix\<close> and row \<open>e\<close> of \<open>block_matrix\<close>, and changes nothing else of the
  group; the groups stay as many as they were. (With fewer rows than groups the loop
  raises, see C6.)
\<close>

theorem solutions_setter_group_slices:
  assumes "length (structural_groups (structural_frame self))
             \<le> length (RawArraysSolution.scalar_field_matrix (raw_arrays val))"
    and "length (structural_groups (structural_frame self))
             \<le> length (RawArraysSolution.block_matrix (raw_arrays val))"
  shows "length (structural_groups (structural_frame (fst (solutions_setter ai self val))))
           = length (structural_groups (structural_frame self))
       \<and> (\<forall>e < length (structural_groups (structural_frame self)).
            structural_groups (structural_frame (fst (solutions_setter ai self val))) ! e =
              (structural_groups (structural_frame self) ! e)\<lparr>solution := Some
                 \<lparr>LegacySolution.scalar_field_matrix =
                     RawArraysSolution.scalar_field_matrix (raw_arrays val) ! e,
                  LegacySolution.block_matrix =
                     RawArraysSolution.block_matrix (raw_arrays val) ! e\<rparr>\<rparr>)"
  using assms
  by (simp add: solutions_setter_structural_groups group_loop_length group_loop_nth)


theorem solutions_setter_group_slices_witness:
  "length (structural_groups (structural_frame (example_model 1)))
     \<le> length (RawArraysSolution.scalar_field_matrix (raw_arrays example_solutions))
   \<and> length (structural_groups (structural_frame (example_model 1)))
     \<le> length (RawArraysSolution.block_matrix (raw_arrays example_solutions))
   \<and> structural_groups (structural_frame
         (fst (solutions_setter example_apply_inverse (example_model 1) example_solutions))) ! 0 =
       \<lparr>StructuralGroup.name = ''Fault_Series'', solution = Some
          \<lparr>LegacySolution.scalar_field_matrix = [1, 2], LegacySolution.block_matrix = [5, 6]\<rparr>\<rparr>
   \<and> structural_groups (structural_frame
         (fst (solutions_setter example_apply_inverse (example_model 1) example_solutions))) ! 1 =
       \<lparr>StructuralGroup.name = ''Strat_Series'', solution = Some
          \<lparr>LegacySolution.scalar_field_matrix = [3, 4], LegacySolution.block_matrix = [7, 8]\<rparr>\<rparr>"
proof -
  have sf: "length (structural_groups (structural_frame (example_model 1)))
     \<le> length (RawArraysSolution.scalar_field_matrix (raw_arrays example_solutions))"
    by (simp add: example_defs)
  have bm: "length (structural_groups (structural_frame (example_model 1)))
     \<le> length (RawArraysSolution.block_matrix (raw_arrays example_solutions))"
    by (simp add: example_defs)
  have two: "length (structural_groups (structural_frame (example_model 1))) = 2"
    by (simp add: example_defs)
  from solutions_setter_group_slices [OF sf bm, of example_apply_inverse]
  have all: "\<forall>e<2. structural_groups (structural_frame
         (fst (solutions_setter example_apply_inverse (example_model 1) example_solutions))) ! e =
              (structural_groups (structural_frame (example_model 1)) ! e)\<lparr>solution := Some
                 \<lparr>LegacySolution.scalar_field_matrix =
                     RawArraysSolution.scalar_field_matrix (raw_arrays example_solutions) ! e,
                  LegacySolution.block_matrix =
                     RawArraysSolution.block_matrix (raw_arrays example_solutions) ! e\<rparr>\<rparr>"
    by (simp only: two) simp
  from all have "structural_groups (structural_frame
         (fst (solutions_setter example_apply_inverse (example_model 1) example_solutions))) ! 0 =
       \<lparr>StructuralGroup.name = ''Fault_Series'', solution = Some
          \<lparr>LegacySolution.scalar_field_matrix = [1, 2], LegacySolution.block_matrix = [5, 6]\<rparr>\<rparr>"
    by (simp add: example_solutions_def example_model_def example_frame_def)
  moreover from all have "structural_groups (structural_frame
         (fst (solutions_setter example_apply_inverse (example_model 1) example_solutions))) ! 1 =
       \<lparr>StructuralGroup.name = ''Strat_Series'', solution = Some
          \<lparr>LegacySolution.scalar_field_matrix = [3, 4], LegacySolution.block_matrix = [7, 8]\<rparr>\<rparr>"
    by (simp add: example_solutions_def example_model_def example_frame_def)
  ultimately show ?thesis using sf bm by simp
qed

text \<open>
  C3 as the code has it. When the group loop goes through, the elements stay as many as
  they were and the last element is what it was before. Each other element, at index
  \<open>e\<close>, is assigned from the entry \<open>e\<close> of the mesh list, as long as the list has that
  entry; where the entry is \<open>None\<close>, or the mesh list as a whole is \<open>None\<close>, both
  vertices and edges end \<open>None\<close>. An element whose index is past the end of the mesh
  list stays as it was. The assignment raises nothing when the mesh list is \<open>None\<close> or has
  an entry for each element but the last.
\<close>

theorem solutions_setter_basement_and_missing_meshes:
  assumes "length (structural_groups (structural_frame self))
             \<le> length (RawArraysSolution.scalar_field_matrix (raw_arrays val))"
    and "length (structural_groups (structural_frame self))
             \<le> length (RawArraysSolution.block_matrix (raw_arrays val))"
  shows "length (structural_elements (structural_frame (fst (solutions_setter ai self val))))
           = length (structural_elements (structural_frame self))
       \<and> (structural_elements (structural_frame self) \<noteq> [] \<longrightarrow>
            last (structural_elements (structural_frame (fst (solutions_setter ai self val))))
              = last (structural_elements (structural_frame self)))
       \<and> (\<forall>e < length (structural_elements (structural_frame self)) - 1.
            structural_elements (structural_frame (fst (solutions_setter ai self val))) ! e =
              (case dc_mesh_at (dc_meshes val) e of
                 Inl ex \<Rightarrow> structural_elements (structural_frame self) ! e
               | Inr dc_mesh \<Rightarrow>
                   (structural_elements (structural_frame self) ! e)
                     \<lparr>StructuralElement.vertices :=
                         map_option (\<lambda>m. ai (transform self) (DualContouringMesh.vertices m)) dc_mesh,
                      StructuralElement.edges := map_option DualContouringMesh.edges dc_mesh\<rparr>))
       \<and> (\<forall>e < length (structural_elements (structural_frame self)) - 1.
            dc_mesh_at (dc_meshes val) e = Inr None \<longrightarrow>
              StructuralElement.vertices
                (structural_elements (structural_frame (fst (solutions_setter ai self val))) ! e) = None
            \<and> StructuralElement.edges
                (structural_elements (structural_frame (fst (solutions_setter ai self val))) ! e) = None)
       \<and> ((case dc_meshes val of
              None \<Rightarrow> True
            | Some ms \<Rightarrow> length (structural_elements (structural_frame self)) - 1 \<le> length ms)
           \<longrightarrow> snd (solutions_setter ai self val) = None)"
proof -
  let ?els = "structural_elements (structural_frame self)"
  let ?loop = "solutions_element_loop ai (transform self) (dc_meshes val) 0 (butlast ?els)"
  let ?els' = "structural_elements (structural_frame (fst (solutions_setter ai self val)))"
  have groups: "snd (solutions_group_loop (raw_arrays val) 0
                  (structural_groups (structural_frame self))) = None"
    using assms(1,2) by (rule group_loop_no_error)
  have els': "?els' = fst ?loop @ drop (length ?els - 1) ?els"
    and err: "snd (solutions_setter ai self val) = snd ?loop"
    using solutions_setter_structural_elements [OF groups] by simp_all
  have len_loop: "length (fst ?loop) = length ?els - 1"
    by (simp add: element_loop_length)
  have len: "length ?els' = length ?els"
    by (simp add: els' len_loop)
  have basement: "?els \<noteq> [] \<longrightarrow> last ?els' = last ?els"
  proof
    assume "?els \<noteq> []"
    then have "drop (length ?els - 1) ?els = [last ?els]"
      by (rule drop_to_last)
    then show "last ?els' = last ?els" by (simp add: els')
  qed
  have covered: "\<forall>e < length ?els - 1. ?els' ! e =
              (case dc_mesh_at (dc_meshes val) e of
                 Inl ex \<Rightarrow> ?els ! e
               | Inr dc_mesh \<Rightarrow>
                   (?els ! e)
                     \<lparr>StructuralElement.vertices :=
                         map_option (\<lambda>m. ai (transform self) (DualContouringMesh.vertices m)) dc_mesh,
                      StructuralElement.edges := map_option DualContouringMesh.edges dc_mesh\<rparr>)"
    using solutions_setter_element_nth [OF groups, of _ ai] by blast
  have absent: "\<forall>e < length ?els - 1. dc_mesh_at (dc_meshes val) e = Inr None \<longrightarrow>
              StructuralElement.vertices (?els' ! e) = None
            \<and> StructuralElement.edges (?els' ! e) = None"
  proof (intro allI impI)
    fix e
    assume e: "e < length ?els - 1" and none: "dc_mesh_at (dc_meshes val) e = Inr None"
    from solutions_setter_element_nth [OF groups e, of ai] none
    have "?els' ! e = (?els ! e)\<lparr>StructuralElement.vertices := None,
                                  StructuralElement.edges := None\<rparr>"
      by simp
    then show "StructuralElement.vertices (?els' ! e) = None
            \<and> StructuralElement.edges (?els' ! e) = None"
      by simp
  qed
  have no_error: "(case dc_meshes val of
              None \<Rightarrow> True
            | Some ms \<Rightarrow> length ?els - 1 \<le> length ms)
           \<longrightarrow> snd (solutions_setter ai self val) = None"
    by (simp add: err element_loop_error_from_0 split: option.splits)
  from len basement covered absent no_error show ?thesis
    by (intro conjI)
qed

theorem solutions_setter_basement_and_missing_meshes_witness:
  "length (structural_groups (structural_frame (example_model 1)))
     \<le> length (RawArraysSolution.scalar_field_matrix (raw_arrays example_solutions))
   \<and> length (structural_groups (structural_frame (example_model 1)))
     \<le> length (RawArraysSolution.block_matrix (raw_arrays example_solutions))
   \<and> (case dc_meshes example_solutions of
         None \<Rightarrow> True
       | Some ms \<Rightarrow> length (structural_elements (structural_frame (example_model 1))) - 1 \<le> length ms)
   \<and> snd (solutions_setter example_apply_inverse (example_model 1) example_solutions) = None
   \<and> last (structural_elements (structural_frame
        (fst (solutions_setter example_apply_inverse (example_model 1) example_solutions)))) =
       \<lparr>StructuralElement.name = ''basement'', vertices = Some [7], edges = Some [7]\<rparr>
   \<and> StructuralElement.vertices (structural_elements (structural_frame (example_model 1)) ! 2)
       = Some [9]
   \<and> StructuralElement.vertices (structural_elements (structural_frame
        (fst (solutions_setter example_apply_inverse (example_model 1) example_solutions))) ! 2)
       = None
   \<and> StructuralElement.edges (structural_elements (structural_frame
        (fst (solutions_setter example_apply_inverse (example_model 1) example_solutions))) ! 2)
       = None"
proof -
  let ?els = "structural_elements (structural_frame (example_model 1))"
  let ?els' = "structural_elements (structural_frame
        (fst (solutions_setter example_apply_inverse (example_model 1) example_solutions)))"
  have sf: "length (structural_groups (structural_frame (example_model 1)))
     \<le> length (RawArraysSolution.scalar_field_matrix (raw_arrays example_solutions))"
    by (simp add: example_defs)
  have bm: "length (structural_groups (structural_frame (example_model 1)))
     \<le> length (RawArraysSolution.block_matrix (raw_arrays example_solutions))"
    by (simp add: example_defs)
  have ms: "case dc_meshes example_solutions of
         None \<Rightarrow> True
       | Some ms \<Rightarrow> length ?els - 1 \<le> length ms"
    by (simp add: example_defs)
  note run = solutions_setter_basement_and_missing_meshes [OF sf bm, of example_apply_inverse]
  have third: "2 < length ?els - 1"
    by (simp add: example_defs)
  have absent: "dc_mesh_at (dc_meshes example_solutions) 2 = Inr None"
    by (simp add: dc_mesh_at_def example_solutions_def)
  have nonempty: "?els \<noteq> []"
    by (simp add: example_defs)
  from run ms have "snd (solutions_setter example_apply_inverse (example_model 1) example_solutions) = None"
    by blast
  moreover from run nonempty have "last ?els' = last ?els"
    by blast
  then have "last ?els' = \<lparr>StructuralElement.name = ''basement'', vertices = Some [7], edges = Some [7]\<rparr>"
    by (simp add: example_model_def example_frame_def)
  moreover have "StructuralElement.vertices (?els ! 2) = Some [9]"
    by (simp add: example_model_def example_frame_def)
  moreover from run third absent
  have "StructuralElement.vertices (?els' ! 2) = None \<and> StructuralElement.edges (?els' ! 2) = None"
    by blast
  ultimately show ?thesis using sf bm ms by simp
qed

text \<open>
  C3 as the claim has it fails. The mesh list is there and is empty, so no covered element
  has a mesh at its index; the rows are enough for the two groups; the setter raises
  \<open>IndexError\<close> at the first element, and the third element keeps the vertices and the
  edges it had instead of getting \<open>None\<close>.
\<close>

theorem solutions_setter_short_mesh_list_raises:
  "length (structural_groups (structural_frame (example_model 1)))
     \<le> length (RawArraysSolution.scalar_field_matrix (raw_arrays example_meshless_solutions))
   \<and> length (structural_groups (structural_frame (example_model 1)))
     \<le> length (RawArraysSolution.block_matrix (raw_arrays example_meshless_solutions))
   \<and> dc_meshes example_meshless_solutions = Some []
   \<and> 2 < length (structural_elements (structural_frame (example_model 1))) - 1
   \<and> snd (solutions_setter example_apply_inverse (example_model 1) example_meshless_solutions)
       = Some IndexError
   \<and> StructuralElement.vertices (structural_elements (structural_frame
        (fst (solutions_setter example_apply_inverse (example_model 1)
                example_meshless_solutions))) ! 2) = Some [9]
   \<and> StructuralElement.edges (structural_elements (structural_frame
        (fst (solutions_setter example_apply_inverse (example_model 1)
                example_meshless_solutions))) ! 2) = Some [9]"
  by (simp add: solutions_setter_def dc_mesh_at_def example_meshless_solutions_def example_defs
      Let_def split_beta)

text \<open>
  C4. When the group loop goes through, an element before the last, at index \<open>e\<close>, for
  which the mesh list has a mesh at index \<open>e\<close>, ends with the vertices
  \<open>apply_inverse\<close> of the model's transform on the mesh's vertices and with the mesh's
  edges as they are; its name stays.
\<close>

theorem solutions_setter_mesh_stored:
  assumes "length (structural_groups (structural_frame self))
             \<le> length (RawArraysSolution.scalar_field_matrix (raw_arrays val))"
    and "length (structural_groups (structural_frame self))
             \<le> length (RawArraysSolution.block_matrix (raw_arrays val))"
    and "e < length (structural_elements (structural_frame self)) - 1"
    and "dc_meshes val = Some ms" and "e < length ms" and "ms ! e = Some mesh"
  shows "StructuralElement.vertices
           (structural_elements (structural_frame (fst (solutions_setter ai self val))) ! e)
           = Some (ai (transform self) (DualContouringMesh.vertices mesh))
       \<and> StructuralElement.edges
           (structural_elements (structural_frame (fst (solutions_setter ai self val))) ! e)
           = Some (DualContouringMesh.edges mesh)
       \<and> StructuralElement.name
           (structural_elements (structural_frame (fst (solutions_setter ai self val))) ! e)
           = StructuralElement.name (structural_elements (structural_frame self) ! e)"
proof -
  have groups: "snd (solutions_group_loop (raw_arrays val) 0
                  (structural_groups (structural_frame self))) = None"
    using assms(1,2) by (rule group_loop_no_error)
  have "dc_mesh_at (dc_meshes val) e = Inr (Some mesh)"
    using assms(4-6) by (simp add: dc_mesh_at_def)
  with solutions_setter_element_nth [OF groups assms(3), of ai] show ?thesis
    by simp
qed

theorem solutions_setter_mesh_stored_witness:
  "length (structural_groups (structural_frame (example_model 1)))
     \<le> length (RawArraysSolution.scalar_field_matrix (raw_arrays example_solutions))
   \<and> length (structural_groups (structural_frame (example_model 1)))
     \<le> length (RawArraysSolution.block_matrix (raw_arrays example_solutions))
   \<and> 1 < length (structural_elements (structural_frame (example_model 1))) - 1
   \<and> (\<exists>ms. dc_meshes example_solutions = Some ms \<and> 1 < length ms
         \<and> ms ! 1 = Some \<lparr>DualContouringMesh.vertices = [4, 5, 6],
                           DualContouringMesh.edges = [2, 1, 0]\<rparr>)
   \<and> transform (example_model 1) = 3
   \<and> StructuralElement.vertices (structural_elements (structural_frame
        (fst (solutions_setter example_apply_inverse (example_model 1) example_solutions))) ! 1)
       = Some [7, 8, 9]
   \<and> StructuralElement.edges (structural_elements (structural_frame
        (fst (solutions_setter example_apply_inverse (example_model 1) example_solutions))) ! 1)
       = Some [2, 1, 0]"
proof -
  let ?ms = "[Some \<lparr>DualContouringMesh.vertices = [1, 2, 3], DualContouringMesh.edges = [0, 1, 2]\<rparr>,
              Some \<lparr>DualContouringMesh.vertices = [4, 5, 6], DualContouringMesh.edges = [2, 1, 0]\<rparr>,
              None] :: int list DualContouringMesh option list"
  have sf: "length (structural_groups (structural_frame (example_model 1)))
     \<le> length (RawArraysSolution.scalar_field_matrix (raw_arrays example_solutions))"
    by (simp add: example_defs)
  have bm: "length (structural_groups (structural_frame (example_model 1)))
     \<le> length (RawArraysSolution.block_matrix (raw_arrays example_solutions))"
    by (simp add: example_defs)
  have e: "1 < length (structural_elements (structural_frame (example_model 1))) - 1"
    by (simp add: example_defs)
  have ms: "dc_meshes example_solutions = Some ?ms"
    by (simp add: example_solutions_def)
  have len: "1 < length ?ms"
    by simp
  have at: "?ms ! 1 = Some \<lparr>DualContouringMesh.vertices = [4, 5, 6],
                            DualContouringMesh.edges = [2, 1, 0]\<rparr>"
    by simp
  have T: "transform (example_model 1) = 3"
    by (simp add: example_model_def)
  from solutions_setter_mesh_stored [OF sf bm e ms len at, of example_apply_inverse]
  show ?thesis
    using sf bm e ms len at T by (simp add: example_apply_inverse_def)
qed

text \<open>
  C6 as the code has it. The setter raises exactly in two cases, both with Python's
  \<open>IndexError\<close>: when there are more groups than rows of \<open>scalar_field_matrix\<close> or of
  \<open>block_matrix\<close>, and otherwise when the mesh list is shorter than the elements before the
  last. In the first case the exception leaves the setter before any mesh is distributed.
  More rows than groups raise nothing.
\<close>

theorem solutions_setter_raises_IndexError:
  "snd (solutions_setter ai self val) =
     (if length (RawArraysSolution.scalar_field_matrix (raw_arrays val))
           < length (structural_groups (structural_frame self))
         \<or> length (RawArraysSolution.block_matrix (raw_arrays val))
           < length (structural_groups (structural_frame self))
      then Some IndexError
      else (case dc_meshes val of
              None \<Rightarrow> None
            | Some ms \<Rightarrow>
                if length (structural_elements (structural_frame self)) - 1 \<le> length ms
                then None else Some IndexError))
   \<and> (length (RawArraysSolution.scalar_field_matrix (raw_arrays val))
           < length (structural_groups (structural_frame self))
         \<or> length (RawArraysSolution.block_matrix (raw_arrays val))
           < length (structural_groups (structural_frame self))
       \<longrightarrow> structural_elements (structural_frame (fst (solutions_setter ai self val)))
             = structural_elements (structural_frame self))"
proof (cases "length (RawArraysSolution.scalar_field_matrix (raw_arrays val))
           < length (structural_groups (structural_frame self))
         \<or> length (RawArraysSolution.block_matrix (raw_arrays val))
           < length (structural_groups (structural_frame self))")
  case True
  then have "snd (solutions_group_loop (raw_arrays val) 0
               (structural_groups (structural_frame self))) = Some IndexError"
    by (auto simp: group_loop_error)
  from solutions_setter_group_error [OF this, of ai] True show ?thesis
    by simp
next
  case False
  then have "snd (solutions_group_loop (raw_arrays val) 0
               (structural_groups (structural_frame self))) = None"
    by (simp add: group_loop_error)
  from solutions_setter_structural_elements(2) [OF this, of ai] False show ?thesis
    by (simp add: element_loop_error_from_0 split: option.splits)
qed

theorem solutions_setter_raises_IndexError_witness:
  "length (RawArraysSolution.scalar_field_matrix (raw_arrays example_short_solutions))
     < length (structural_groups (structural_frame (example_model 1)))
   \<and> snd (solutions_setter example_apply_inverse (example_model 1) example_short_solutions)
       = Some IndexError
   \<and> structural_elements (structural_frame
        (fst (solutions_setter example_apply_inverse (example_model 1) example_short_solutions)))
       = structural_elements (structural_frame (example_model 1))"
proof -
  have short: "length (RawArraysSolution.scalar_field_matrix (raw_arrays example_short_solutions))
     < length (structural_groups (structural_frame (example_model 1)))"
    by (simp add: example_short_solutions_def example_defs)
  with solutions_setter_raises_IndexError
         [of example_apply_inverse "example_model 1" example_short_solutions]
  show ?thesis by simp
qed

text \<open>
  C6 as the claim has it fails: two groups and three rows do not match, and the
  assignment raises nothing.
\<close>

theorem solutions_setter_surplus_slices_accepted:
  "length (structural_groups (structural_frame (example_model 1)))
     \<noteq> length (RawArraysSolution.scalar_field_matrix (raw_arrays example_surplus_solutions))
   \<and> length (structural_groups (structural_frame (example_model 1)))
     \<noteq> length (RawArraysSolution.block_matrix (raw_arrays example_surplus_solutions))
   \<and> snd (solutions_setter example_apply_inverse (example_model 1) example_surplus_solutions)
       \<noteq> Some IndexMismatchError
   \<and> snd (solutions_setter example_apply_inverse (example_model 1) example_surplus_solutions)
       = None"
  by (simp add: solutions_setter_def dc_mesh_at_def example_surplus_solutions_def example_defs
      Let_def split_beta)

section \<open>Properties of construction and of a session\<close>

lemma GeoModel_init_raises:
  "fip (surface_points sf) (orientations sf) = Inl ex \<Longrightarrow>
     GeoModel_init fip nm sf g opts = Inl ex"
  by (simp add: GeoModel_init_def)

lemma GeoModel_init_transform:
  "GeoModel_init fip nm sf g opts = Inr self \<Longrightarrow>
     fip (surface_points sf) (orientations sf) = Inr (transform self)"
  by (auto simp: GeoModel_init_def split: sum.splits)

lemma run_ops_transform:
  "transform (fst (run_ops fsf ai self ops)) = transform self
   \<and> (\<forall>T oc. FromStructuralFrame T oc \<in> set (snd (run_ops fsf ai self ops))
         \<longrightarrow> T = transform self)"
proof (induction ops arbitrary: self)
  case Nil
  show ?case by simp
next
  case (Cons x ops)
  show ?case
  proof (cases x)
    case Read
    obtain r self' evs where step: "interpolation_input fsf self = (r, self', evs)"
      by (cases "interpolation_input fsf self")
    then have same: "transform self' = transform self"
      using interpolation_input_transform [of fsf self] by simp
    have evs: "T = transform self" if "FromStructuralFrame T oc \<in> set evs" for T oc
      using that step interpolation_input_event_transform [of T oc fsf self] by simp
    from Cons.IH [of self'] same evs step Read show ?thesis
      by (auto simp: split_beta)
  next
    case (Assign val)
    with Cons.IH [of "fst (solutions_setter ai self val)"] show ?thesis
      by (simp add: solutions_setter_transform)
  next
    case (Edit f)
    with Cons.IH [of "self\<lparr>structural_frame := f (structural_frame self)\<rparr>"] show ?thesis
      by simp
  qed
qed

text \<open>
  C7. The transform of a model is what \<open>from_input_points\<close> returned for the frame's
  surface points and orientations when the model was built. Whatever reads, solution
  assignments and edits of the structural frame follow, the model's transform stays that
  one, and every call of \<open>from_structural_frame\<close> is given it.
\<close>

theorem transform_fitted_at_construction_only:
  assumes "GeoModel_init fip nm sf g opts = Inr self"
  shows "fip (surface_points sf) (orientations sf) = Inr (transform self)
       \<and> transform (fst (run_ops fsf ai self ops)) = transform self
       \<and> (\<forall>T oc. FromStructuralFrame T oc \<in> set (snd (run_ops fsf ai self ops))
             \<longrightarrow> T = transform self)"
  using GeoModel_init_transform [OF assms] run_ops_transform [of fsf ai self ops]
  by simp

theorem transform_fitted_at_construction_only_witness:
  "GeoModel_init (from_input_points example_fit) ''Model_Tuto1-1'' example_frame example_grid
     \<lparr>number_octree_levels = 3\<rparr> = Inr (example_model 3)
   \<and> from_input_points example_fit (surface_points example_frame) (orientations example_frame)
       = Inr 3
   \<and> transform (fst (run_ops example_fsf example_apply_inverse (example_model 3)
        [Read, Edit (\<lambda>sf. sf\<lparr>surface_points := [(1, 1, 1)], is_dirty := True\<rparr>), Read])) = 3
   \<and> snd (run_ops example_fsf example_apply_inverse (example_model 3)
        [Read, Edit (\<lambda>sf. sf\<lparr>surface_points := [(1, 1, 1)], is_dirty := True\<rparr>), Read])
       = [UserWarning overwrite_message, FromStructuralFrame 3 True,
          UserWarning overwrite_message, FromStructuralFrame 3 True]"
proof -
  let ?ops = "[Read, Edit (\<lambda>sf. sf\<lparr>surface_points := [(1, 1, 1)], is_dirty := True\<rparr>), Read]
       :: (int list, int \<times> int \<times> int) op list"
  have init: "GeoModel_init (from_input_points example_fit) ''Model_Tuto1-1'' example_frame
      example_grid \<lparr>number_octree_levels = 3\<rparr> = Inr (example_model 3)"
    by (simp add: GeoModel_init_def from_input_points_def coincident_def example_defs)
  have T: "transform (example_model 3) = 3"
    by (simp add: example_model_def)
  have evs: "snd (run_ops example_fsf example_apply_inverse (example_model 3) ?ops)
       = [UserWarning overwrite_message, FromStructuralFrame 3 True,
          UserWarning overwrite_message, FromStructuralFrame 3 True]"
    by (simp add: interpolation_input_def set_regular_grid_def example_defs Let_def split_beta)
  from transform_fitted_at_construction_only
         [OF init, of example_fsf example_apply_inverse ?ops]
  show ?thesis using init evs by (simp add: T)
qed

text \<open>
  C9. When all input positions of the frame, of surface points and of orientations, are
  the same point, \<open>from_input_points\<close> fails with \<open>DegenerateInputError\<close>, and so does the
  construction of the model: \<open>__init__\<close> returns no model and hands the error on.
\<close>

theorem GeoModel_init_degenerate_input:
  assumes "coincident (surface_points sf @ map fst (orientations sf))"
  shows "from_input_points fit (surface_points sf) (orientations sf) = Inl DegenerateInputError
       \<and> GeoModel_init (from_input_points fit) nm sf g opts = Inl DegenerateInputError"
proof -
  from assms
  have "from_input_points fit (surface_points sf) (orientations sf) = Inl DegenerateInputError"
    by (simp add: from_input_points_def)
  then show ?thesis
    by (simp add: GeoModel_init_raises)
qed

theorem GeoModel_init_degenerate_input_witness:
  "coincident (surface_points example_degenerate_frame
                 @ map fst (orientations example_degenerate_frame))
   \<and> surface_points example_degenerate_frame = [(1, 2, 3), (1, 2, 3)]
   \<and> from_input_points example_fit (surface_points example_degenerate_frame)
         (orientations example_degenerate_frame) = Inl DegenerateInputError
   \<and> (GeoModel_init (from_input_points example_fit) ''Model_Tuto1-1'' example_degenerate_frame
         example_grid \<lparr>number_octree_levels = 1\<rparr>
       :: error + (int list, int \<times> int \<times> int, int,
                   (int \<times> int \<times> int) list \<times> int list option \<times> int \<times> bool) GeoModel)
       = Inl DegenerateInputError"
proof -
  have same: "coincident (surface_points example_degenerate_frame
                 @ map fst (orientations example_degenerate_frame))"
    by (simp add: coincident_def example_degenerate_frame_def example_frame_def)
  have pts: "surface_points example_degenerate_frame = [(1, 2, 3), (1, 2, 3)]"
    by (simp add: example_degenerate_frame_def)
  from GeoModel_init_degenerate_input [OF same] same pts show ?thesis
    by simp
qed


end
